theory Spec2Isabelle
  imports Main "HOL-Library.Sublist"
begin

section \<open>Remote context provider: data model\<close>

text \<open>
  The development embeds \<^verbatim>\<open>components/server/src/workspace/remote-context-provider.ts\<close>.
  The class \<^verbatim>\<open>RemoteContextProvider\<close> has two methods with logic: \<^verbatim>\<open>getUser\<close> (credential
  resolution, lines 102-123) and \<^verbatim>\<open>getWorkspaceContext\<close> (orchestration, translation of the
  start specification and assembly of the response, lines 56-100).

  Protobuf message objects that the method only hands on (the Git specification, the
  initializer and the port specifications) are JavaScript object references; they are modelled
  as addresses, so that two messages holding the same object hold the same address.
  Strings and enum numbers are immutable values. The messages the method constructs itself
  with \<^verbatim>\<open>new\<close> are modelled by their field values.

  Left out: the gRPC plumbing (\<^verbatim>\<open>server\<close>, which hands the result or the rejection of
  \<^verbatim>\<open>getWorkspaceContext\<close> to the callback, and \<^verbatim>\<open>startServer\<close>), and the trace context
  \<^verbatim>\<open>ctx\<close>, an empty object that is only handed on to the collaborators.
\<close>

type_synonym ref = nat

type_synonym AdmissionLevel = nat

text \<open>
  Modelled from the spec: the enum \<^verbatim>\<open>EnvVarApplication\<close> is declared in
  \<^verbatim>\<open>@gitpod/registry-facade/lib/imagespec_pb\<close>, which is not part of the sources. The code uses
  \<^verbatim>\<open>OVERWRITE\<close>; the specification (section 8) names \<^verbatim>\<open>APPEND\<close> as a second mode (\<open>APPEND_MODE\<close> here).
\<close>

datatype EnvVarApplication = OVERWRITE | APPEND_MODE

text \<open>
  Modelled from the spec: the enum \<^verbatim>\<open>GitpodTokenType\<close> is declared in
  \<^verbatim>\<open>@gitpod/gitpod-protocol\<close>. The code uses \<^verbatim>\<open>MACHINE_AUTH_TOKEN\<close>, the "machine auth token"
  credential kind of the specification; \<^verbatim>\<open>API_AUTH_TOKEN\<close> stands for any other kind.
\<close>

datatype GitpodTokenType = API_AUTH_TOKEN | MACHINE_AUTH_TOKEN

text \<open>
  An environment variable entry: \<^verbatim>\<open>getName\<close>, \<^verbatim>\<open>getValue\<close> and the application mode.
  The field \<open>val\<close> is the source's \<^verbatim>\<open>value\<close>.
\<close>

record EnvironmentVariable =
  name :: string
  val :: string
  mode :: EnvVarApplication

text \<open>The fields of a start specification that the method reads and writes (lines 71-86).\<close>

record StartWorkspaceSpec =
  admission :: AdmissionLevel
  checkoutLocation :: string
  envvarsList :: "EnvironmentVariable list"
  git :: "ref option"
  ideImage :: string
  initializer :: "ref option"
  portsList :: "ref list"
  timeout :: string
  workspaceImage :: string
  workspaceLocation :: string

text \<open>
  The entities of \<^verbatim>\<open>@gitpod/gitpod-protocol\<close>, with the fields this file reads:
  \<^verbatim>\<open>user.id\<close>, \<^verbatim>\<open>workspace.id\<close>, \<^verbatim>\<open>workspace.ownerId\<close>, \<^verbatim>\<open>instance.id\<close>.
\<close>

record User =
  user_id :: string

record Workspace =
  workspace_id :: string
  ownerId :: string

record WorkspaceInstance =
  instance_id :: string

text \<open>
  A stored credential, and the pair that \<^verbatim>\<open>findUserByGitpodToken\<close> resolves to
  (\<open>ut_user\<close> is its field \<^verbatim>\<open>user\<close>, \<open>ut_token\<close> its field \<^verbatim>\<open>token\<close>).
\<close>

record GitpodToken =
  tokenHash :: string
  tokenType :: GitpodTokenType

record UserAndToken =
  ut_user :: User
  ut_token :: GitpodToken

text \<open>The response message and its metadata (lines 88-97); \<open>resp_id\<close> is the field \<^verbatim>\<open>id\<close>.\<close>

record WorkspaceMetadata =
  metaId :: string
  owner :: string

record GetWorkspaceContextResponse =
  resp_id :: string
  metadata :: "WorkspaceMetadata option"
  servicePrefix :: string
  spec :: "StartWorkspaceSpec option"

text \<open>
  The call: the request metadata, a mapping from header name to value list
  (\<^verbatim>\<open>call.metadata\<close>), and the context URL of the request (\<^verbatim>\<open>call.request.getContextUrl()\<close>).
\<close>

record ServerUnaryCall =
  callMetadata :: "string \<rightharpoonup> string list"
  contextUrl :: string

section \<open>Errors, collaborators and the observable state\<close>

text \<open>
  The method rejects either with the literal \<^verbatim>\<open>{ code: Status.UNAUTHENTICATED }\<close> (line 60) or
  with whatever a collaborator threw; there is no \<^verbatim>\<open>try\<close>/\<^verbatim>\<open>catch\<close> in the file.
\<close>

datatype 'e error = Unauthenticated | Thrown 'e

text \<open>
  Every call to an injected collaborator is recorded, with its arguments and with what it
  returned or threw, in the order in which the calls happen.
\<close>

datatype ('c, 'v) invocation =
    FindUserByGitpodToken string GitpodTokenType
  | NormalizeContextURL string
  | Handle User string
  | CreateForContext User 'c string
  | NewInstance Workspace User
  | GetEnvVars string
  | CreateSpec User Workspace WorkspaceInstance "'v list"

datatype ('c, 'v) returned =
    RetUserAndToken "UserAndToken option"
  | RetString string
  | RetContext 'c
  | RetWorkspace Workspace
  | RetInstance WorkspaceInstance
  | RetEnvVars "'v list"
  | RetSpec StartWorkspaceSpec

type_synonym ('c, 'v, 'e) event = "('c, 'v) invocation \<times> ('e + ('c, 'v) returned)"

text \<open>
  The collaborators are parameters: the user database (\<^verbatim>\<open>userDB\<close>), the context parser, the
  workspace factory and the workspace starter, each a function of its arguments and of the
  state \<open>'s\<close> of the world outside this class, returning a value or throwing \<open>'e\<close>.
  \<open>sha256_hex\<close> stands for
  \<^verbatim>\<open>crypto.createHash('sha256').update(token, 'utf8').digest("hex")\<close>.
  \<open>'c\<close> is the resolved context and \<open>'v\<close> a stored environment variable of the user;
  both are opaque here.
\<close>

record ('c, 'v, 'e, 's) collaborators =
  sha256_hex :: "string \<Rightarrow> string"
  findUserByGitpodToken :: "string \<Rightarrow> GitpodTokenType \<Rightarrow> 's \<Rightarrow> ('e + UserAndToken option) \<times> 's"
  getEnvVars :: "string \<Rightarrow> 's \<Rightarrow> ('e + 'v list) \<times> 's"
  normalizeContextURL :: "string \<Rightarrow> 's \<Rightarrow> ('e + string) \<times> 's"
  handle :: "User \<Rightarrow> string \<Rightarrow> 's \<Rightarrow> ('e + 'c) \<times> 's"
  createForContext :: "User \<Rightarrow> 'c \<Rightarrow> string \<Rightarrow> 's \<Rightarrow> ('e + Workspace) \<times> 's"
  newInstance :: "Workspace \<Rightarrow> User \<Rightarrow> 's \<Rightarrow> ('e + WorkspaceInstance) \<times> 's"
  createSpec :: "User \<Rightarrow> Workspace \<Rightarrow> WorkspaceInstance \<Rightarrow> 'v list \<Rightarrow> 's \<Rightarrow> ('e + StartWorkspaceSpec) \<times> 's"

text \<open>
  The state a call runs in: the outside world, the record of collaborator calls, and what
  was written to the console (one entry per \<^verbatim>\<open>console.log({auth})\<close>: the list of header values
  printed).
\<close>

record ('c, 'v, 'e, 's) state =
  world :: 's
  calls :: "('c, 'v, 'e) event list"
  console :: "string list list"

text \<open>Calling a collaborator: run it on the world, record the call and its outcome.\<close>

definition invoke ::
  "('c, 'v) invocation \<Rightarrow> ('a \<Rightarrow> ('c, 'v) returned) \<Rightarrow> ('s \<Rightarrow> ('e + 'a) \<times> 's) \<Rightarrow>
   ('c, 'v, 'e, 's) state \<Rightarrow> ('e error + 'a) \<times> ('c, 'v, 'e, 's) state" where
  "invoke c ret f st =
     (case f (world st) of
        (Inl e, w) \<Rightarrow> (Inl (Thrown e), st\<lparr>world := w, calls := calls st @ [(c, Inl e)]\<rparr>)
      | (Inr a, w) \<Rightarrow> (Inr a, st\<lparr>world := w, calls := calls st @ [(c, Inr (ret a))]\<rparr>))"

text \<open>
  \<^verbatim>\<open>const x = await m; ...\<close>: if \<open>m\<close> rejects, the rest is skipped and the rejection is the
  result.
\<close>

definition await ::
  "('st \<Rightarrow> ('x + 'a) \<times> 'st) \<Rightarrow> ('a \<Rightarrow> 'st \<Rightarrow> ('x + 'b) \<times> 'st) \<Rightarrow> 'st \<Rightarrow> ('x + 'b) \<times> 'st" where
  "await m k st = (case m st of (Inl e, st') \<Rightarrow> (Inl e, st') | (Inr a, st') \<Rightarrow> k a st')"

definition console_log ::
  "string list \<Rightarrow> ('c, 'v, 'e, 's) state \<Rightarrow> ('c, 'v, 'e, 's) state" where
  "console_log auth st = st\<lparr>console := console st @ [auth]\<rparr>"

section \<open>Credential resolution: \<^verbatim>\<open>getUser\<close>\<close>

text \<open>
  Lines 102-123. \<^verbatim>\<open>metadata.get("Authorization")\<close> is the lookup in the mapping; the guard
  \<^verbatim>\<open>!auth || auth.length === 0\<close> covers the missing entry and the empty list. The result
  \<open>None\<close> is the source's \<^verbatim>\<open>undefined\<close>. \<^verbatim>\<open>startsWith\<close> is \<open>prefix\<close>, and
  \<^verbatim>\<open>substring("Bearer ".length)\<close> drops the seven characters of the prefix.
\<close>

definition getUser ::
  "('c, 'v, 'e, 's) collaborators \<Rightarrow> (string \<rightharpoonup> string list) \<Rightarrow>
   ('c, 'v, 'e, 's) state \<Rightarrow> ('e error + User option) \<times> ('c, 'v, 'e, 's) state" where
  "getUser d md st =
     (case md ''Authorization'' of
        None \<Rightarrow> (Inr None, st)
      | Some [] \<Rightarrow> (Inr None, st)
      | Some (a0 # rest) \<Rightarrow>
          (let auth = a0 # rest;
               st1 = console_log auth st;
               authorizationHeader = a0
           in if \<not> prefix ''Bearer '' authorizationHeader then (Inr None, st1)
              else
                (let token = drop (length ''Bearer '') authorizationHeader;
                     hash = sha256_hex d token
                 in await
                      (invoke (FindUserByGitpodToken hash MACHINE_AUTH_TOKEN) RetUserAndToken
                         (findUserByGitpodToken d hash MACHINE_AUTH_TOKEN))
                      (\<lambda>found st2.
                         case found of
                           None \<Rightarrow> (Inr None, st2)
                         | Some ut \<Rightarrow> (Inr (Some (ut_user ut)), st2))
                      st1)))"

section \<open>Translation of the start specification\<close>

text \<open>
  The messages as \<^verbatim>\<open>new\<close> leaves them, with the protobuf defaults: zero, the empty string,
  the empty list, no message. Every field below is then set by the method.
\<close>

definition new_StartWorkspaceSpec :: StartWorkspaceSpec where
  "new_StartWorkspaceSpec =
     \<lparr>admission = 0, checkoutLocation = [], envvarsList = [], git = None, ideImage = [],
      initializer = None, portsList = [], timeout = [], workspaceImage = [],
      workspaceLocation = []\<rparr>"

definition new_WorkspaceMetadata :: WorkspaceMetadata where
  "new_WorkspaceMetadata = \<lparr>metaId = [], owner = []\<rparr>"

definition new_GetWorkspaceContextResponse :: GetWorkspaceContextResponse where
  "new_GetWorkspaceContextResponse =
     \<lparr>resp_id = [], metadata = None, servicePrefix = [], spec = None\<rparr>"

text \<open>
  Lines 73-79: the function mapped over the environment variables. The new message \<open>r\<close>
  gets its three fields from \<^verbatim>\<open>setName\<close>, \<^verbatim>\<open>setValue\<close> and \<^verbatim>\<open>setMode\<close>.
\<close>

definition translateEnvVar :: "EnvironmentVariable \<Rightarrow> EnvironmentVariable" where
  "translateEnvVar e = \<lparr>name = name e, val = val e, mode = OVERWRITE\<rparr>"

text \<open>Lines 70-86: the wire specification built from \<^verbatim>\<open>originalspec\<close>, setter by setter.\<close>

definition translateSpec :: "StartWorkspaceSpec \<Rightarrow> StartWorkspaceSpec" where
  "translateSpec originalspec =
     (let s = new_StartWorkspaceSpec;
          s = s\<lparr>admission := admission originalspec\<rparr>;
          s = s\<lparr>checkoutLocation := checkoutLocation originalspec\<rparr>;
          s = s\<lparr>envvarsList := map translateEnvVar (envvarsList originalspec)\<rparr>;
          s = s\<lparr>git := git originalspec\<rparr>;
          s = s\<lparr>ideImage := ideImage originalspec\<rparr>;
          s = s\<lparr>initializer := initializer originalspec\<rparr>;
          s = s\<lparr>portsList := portsList originalspec\<rparr>;
          s = s\<lparr>timeout := timeout originalspec\<rparr>;
          s = s\<lparr>workspaceImage := workspaceImage originalspec\<rparr>;
          s = s\<lparr>workspaceLocation := workspaceLocation originalspec\<rparr>
      in s)"

text \<open>Lines 88-97: the response.\<close>

definition buildResponse ::
  "Workspace \<Rightarrow> WorkspaceInstance \<Rightarrow> StartWorkspaceSpec \<Rightarrow> GetWorkspaceContextResponse" where
  "buildResponse workspace instance wspec =
     (let resp = new_GetWorkspaceContextResponse;
          resp = resp\<lparr>resp_id := instance_id instance\<rparr>;
          resp = resp\<lparr>metadata :=
                   (let md = new_WorkspaceMetadata;
                        md = md\<lparr>metaId := workspace_id workspace\<rparr>;
                        md = md\<lparr>owner := ownerId workspace\<rparr>
                    in Some md)\<rparr>;
          resp = resp\<lparr>servicePrefix := workspace_id workspace\<rparr>;
          resp = resp\<lparr>spec := Some wspec\<rparr>
      in resp)"

section \<open>The method \<^verbatim>\<open>getWorkspaceContext\<close>\<close>

text \<open>Lines 56-100, statement by statement.\<close>

definition getWorkspaceContext ::
  "('c, 'v, 'e, 's) collaborators \<Rightarrow> ServerUnaryCall \<Rightarrow>
   ('c, 'v, 'e, 's) state \<Rightarrow>
   ('e error + GetWorkspaceContextResponse) \<times> ('c, 'v, 'e, 's) state" where
  "getWorkspaceContext d call =
     await (getUser d (callMetadata call)) (\<lambda>maybeUser.
       case maybeUser of
         None \<Rightarrow> (\<lambda>st. (Inl Unauthenticated, st))
       | Some user \<Rightarrow>
     await (invoke (NormalizeContextURL (contextUrl call)) RetString
              (normalizeContextURL d (contextUrl call))) (\<lambda>normalizedContextUrl.
     await (invoke (Handle user normalizedContextUrl) RetContext
              (handle d user normalizedContextUrl)) (\<lambda>context.
     await (invoke (CreateForContext user context normalizedContextUrl) RetWorkspace
              (createForContext d user context normalizedContextUrl)) (\<lambda>workspace.
     await (invoke (NewInstance workspace user) RetInstance
              (newInstance d workspace user)) (\<lambda>instance.
     await (invoke (GetEnvVars (user_id user)) RetEnvVars
              (getEnvVars d (user_id user))) (\<lambda>envVars.
     await (invoke (CreateSpec user workspace instance envVars) RetSpec
              (createSpec d user workspace instance envVars)) (\<lambda>originalspec st.
       (Inr (buildResponse workspace instance (translateSpec originalspec)), st))))))))"

section \<open>Observations on a run\<close>

text \<open>The collaborator calls a run added to the record.\<close>

definition newCalls ::
  "('c, 'v, 'e, 's) state \<Rightarrow> ('c, 'v, 'e, 's) state \<Rightarrow> ('c, 'v, 'e) event list" where
  "newCalls st st' = drop (length (calls st)) (calls st')"

text \<open>The Workspace Records the factory returned and the Instances the starter allocated.\<close>

fun createdWorkspace :: "('c, 'v, 'e) event \<Rightarrow> Workspace option" where
  "createdWorkspace (CreateForContext u c n, Inr (RetWorkspace ws)) = Some ws"
| "createdWorkspace ev = None"

fun allocatedInstance :: "('c, 'v, 'e) event \<Rightarrow> WorkspaceInstance option" where
  "allocatedInstance (NewInstance ws u, Inr (RetInstance inst)) = Some inst"
| "allocatedInstance ev = None"

text \<open>The steps of the request pipeline, in the order of lines 58-68.\<close>

datatype step =
    LookupCredential | NormalizeContext | ResolveContext | CreateWorkspace
  | AllocateInstance | FetchEnvVars | BuildSpec

fun stepOf :: "('c, 'v) invocation \<Rightarrow> step" where
  "stepOf (FindUserByGitpodToken h k) = LookupCredential"
| "stepOf (NormalizeContextURL u) = NormalizeContext"
| "stepOf (Handle u n) = ResolveContext"
| "stepOf (CreateForContext u c n) = CreateWorkspace"
| "stepOf (NewInstance w u) = AllocateInstance"
| "stepOf (GetEnvVars i) = FetchEnvVars"
| "stepOf (CreateSpec u w i e) = BuildSpec"

definition pipeline :: "step list" where
  "pipeline = [LookupCredential, NormalizeContext, ResolveContext, CreateWorkspace,
               AllocateInstance, FetchEnvVars, BuildSpec]"

text \<open>
  The message objects a start specification refers to: its Git specification, its
  initializer and its port specifications. Two specifications that hold a common address
  share that (mutable) message object.
\<close>

definition messageRefs :: "StartWorkspaceSpec \<Rightarrow> ref set" where
  "messageRefs s = set_option (git s) \<union> set_option (initializer s) \<union> set (portsList s)"

section \<open>Fixtures\<close>

text \<open>
  Modelled from the spec: the credential store behind \<^verbatim>\<open>findUserByGitpodToken\<close> lives in
  \<^verbatim>\<open>@gitpod/gitpod-db\<close>, outside the sources. Specification 4.1, step 5: look up a
  credential record by digest, scoped to a credential kind; no match is "unresolved".
  The store is a table of credentials with their owners; the lookup does not change it.
\<close>

definition credentialStore ::
  "UserAndToken list \<Rightarrow> string \<Rightarrow> GitpodTokenType \<Rightarrow> 's \<Rightarrow> ('e + UserAndToken option) \<times> 's" where
  "credentialStore creds hash kind w =
     (Inr (find (\<lambda>c. tokenHash (ut_token c) = hash \<and> tokenType (ut_token c) = kind) creds), w)"

text \<open>
  The end-to-end scenario of specification section 8. \<open>fixture_digest\<close> is a stand-in
  for the hash function in concrete runs (any function serves: the method only passes the
  digest on). The store knows the token \<^verbatim>\<open>abc\<close> of user \<^verbatim>\<open>U1\<close>, the empty token of user
  \<^verbatim>\<open>U0\<close>, and an API token \<^verbatim>\<open>xyz\<close> of user \<^verbatim>\<open>U2\<close>, which is not a machine auth token.
\<close>

definition fixture_digest :: "string \<Rightarrow> string" where
  "fixture_digest t = ''D('' @ t @ '')''"

definition fixture_credentials :: "UserAndToken list" where
  "fixture_credentials =
     [\<lparr>ut_user = \<lparr>user_id = ''U1''\<rparr>,
       ut_token = \<lparr>tokenHash = fixture_digest ''abc'', tokenType = MACHINE_AUTH_TOKEN\<rparr>\<rparr>,
      \<lparr>ut_user = \<lparr>user_id = ''U0''\<rparr>,
       ut_token = \<lparr>tokenHash = fixture_digest [], tokenType = MACHINE_AUTH_TOKEN\<rparr>\<rparr>,
      \<lparr>ut_user = \<lparr>user_id = ''U2''\<rparr>,
       ut_token = \<lparr>tokenHash = fixture_digest ''xyz'', tokenType = API_AUTH_TOKEN\<rparr>\<rparr>]"

definition fixture_spec :: StartWorkspaceSpec where
  "fixture_spec =
     \<lparr>admission = 1, checkoutLocation = ''repo'',
      envvarsList = [\<lparr>name = ''FOO'', val = ''bar'', mode = APPEND_MODE\<rparr>],
      git = Some 10, ideImage = ''ide:latest'', initializer = Some 11, portsList = [12, 13],
      timeout = ''30m'', workspaceImage = ''ws:latest'',
      workspaceLocation = ''/workspace/repo''\<rparr>"

text \<open>The world of the fixture counts the operations that changed it.\<close>

definition fixture :: "(string, string, string, nat) collaborators" where
  "fixture =
     \<lparr>sha256_hex = fixture_digest,
      findUserByGitpodToken = credentialStore fixture_credentials,
      getEnvVars = (\<lambda>uid w. (Inr [''E''], w)),
      normalizeContextURL = (\<lambda>url w. (Inr url, w)),
      handle = (\<lambda>u url w. (Inr ''C'', w)),
      createForContext =
        (\<lambda>u c url w. (Inr \<lparr>workspace_id = ''ws1'', ownerId = user_id u\<rparr>, Suc w)),
      newInstance = (\<lambda>ws u w. (Inr \<lparr>instance_id = ''inst1''\<rparr>, Suc w)),
      createSpec = (\<lambda>u ws inst evs w. (Inr fixture_spec, w))\<rparr>"

text \<open>The same collaborators with an unreachable credential store.\<close>

definition fixture_store_down :: "(string, string, string, nat) collaborators" where
  "fixture_store_down =
     fixture\<lparr>findUserByGitpodToken := (\<lambda>hash kind w. (Inl ''store unreachable'', w))\<rparr>"

text \<open>The same collaborators with a context resolver that fails.\<close>

definition fixture_unresolvable :: "(string, string, string, nat) collaborators" where
  "fixture_unresolvable = fixture\<lparr>handle := (\<lambda>u url w. (Inl ''no such repository'', w))\<rparr>"

definition fixture_call :: ServerUnaryCall where
  "fixture_call =
     \<lparr>callMetadata = [''Authorization'' \<mapsto> [''Bearer abc'']],
      contextUrl = ''https://example.com/repo''\<rparr>"

definition fixture_state :: "(string, string, string, nat) state" where
  "fixture_state = \<lparr>world = 0, calls = [], console = []\<rparr>"

text \<open>
  A second call, by another caller for another repository, in a later state: its
  Authorization value is the bare prefix, so its token is the empty string.
\<close>

definition fixture_call_empty_token :: ServerUnaryCall where
  "fixture_call_empty_token =
     \<lparr>callMetadata = [''Authorization'' \<mapsto> [''Bearer '']],
      contextUrl = ''https://example.com/other''\<rparr>"

definition fixture_state_later :: "(string, string, string, nat) state" where
  "fixture_state_later = \<lparr>world = 7, calls = [], console = [[''Bearer abc'']]\<rparr>"

section \<open>Basic facts\<close>

lemma Bearer_length: "length ''Bearer '' = 7"
  by simp

lemma await_Inr_iff:
  "await m k st = (Inr b, st') \<longleftrightarrow> (\<exists>a st1. m st = (Inr a, st1) \<and> k a st1 = (Inr b, st'))"
  by (auto simp: await_def split: prod.splits sum.splits)

lemma invoke_Inr_iff:
  "invoke c ret f st = (Inr a, st') \<longleftrightarrow>
     (\<exists>w. f (world st) = (Inr a, w) \<and>
          st' = st\<lparr>world := w, calls := calls st @ [(c, Inr (ret a))]\<rparr>)"
  by (auto simp: invoke_def split: prod.splits sum.splits)

lemma newCalls_append: "calls st' = calls st @ new \<Longrightarrow> newCalls st st' = new"
  by (simp add: newCalls_def)

subsection \<open>The four ways through \<^verbatim>\<open>getUser\<close>\<close>

lemma getUser_missing:
  "md ''Authorization'' = None \<Longrightarrow> getUser d md st = (Inr None, st)"
  by (simp add: getUser_def)

lemma getUser_empty:
  "md ''Authorization'' = Some [] \<Longrightarrow> getUser d md st = (Inr None, st)"
  by (simp add: getUser_def)

lemma getUser_malformed:
  "md ''Authorization'' = Some (a # rest) \<Longrightarrow> \<not> prefix ''Bearer '' a \<Longrightarrow>
   getUser d md st = (Inr None, st\<lparr>console := console st @ [a # rest]\<rparr>)"
  by (simp add: getUser_def console_log_def)

lemma getUser_lookup:
  assumes "md ''Authorization'' = Some (a # rest)" and "prefix ''Bearer '' a"
    and "findUserByGitpodToken d (sha256_hex d (drop 7 a)) MACHINE_AUTH_TOKEN (world st) = (r, w)"
  shows "getUser d md st =
     (case r of Inl e \<Rightarrow> Inl (Thrown e) | Inr found \<Rightarrow> Inr (map_option ut_user found),
      st\<lparr>world := w,
         calls := calls st @
           [(FindUserByGitpodToken (sha256_hex d (drop 7 a)) MACHINE_AUTH_TOKEN,
             map_sum id RetUserAndToken r)],
         console := console st @ [a # rest]\<rparr>)"
  unfolding getUser_def Bearer_length Let_def using assms
  by (simp add: console_log_def await_def invoke_def split: sum.splits option.splits)

lemma getUser_Some_iff:
  "getUser d md st = (Inr (Some u), st') \<longleftrightarrow>
     (\<exists>a rest ut w. md ''Authorization'' = Some (a # rest) \<and> prefix ''Bearer '' a \<and>
        findUserByGitpodToken d (sha256_hex d (drop 7 a)) MACHINE_AUTH_TOKEN (world st)
          = (Inr (Some ut), w) \<and>
        u = ut_user ut \<and>
        st' = st\<lparr>world := w,
                calls := calls st @
                  [(FindUserByGitpodToken (sha256_hex d (drop 7 a)) MACHINE_AUTH_TOKEN,
                    Inr (RetUserAndToken (Some ut)))],
                console := console st @ [a # rest]\<rparr>)"
  unfolding getUser_def Bearer_length Let_def
  by (auto simp: console_log_def await_def invoke_def
      split: sum.splits option.splits list.splits prod.splits)

subsection \<open>The messages built by the method\<close>

lemma buildResponse_fields:
  "resp_id (buildResponse ws inst w) = instance_id inst"
  "servicePrefix (buildResponse ws inst w) = workspace_id ws"
  "metadata (buildResponse ws inst w) = Some \<lparr>metaId = workspace_id ws, owner = ownerId ws\<rparr>"
  "spec (buildResponse ws inst w) = Some w"
  by (simp_all add: buildResponse_def new_GetWorkspaceContextResponse_def
      new_WorkspaceMetadata_def)

lemma translateSpec_eq:
  "translateSpec s =
     \<lparr>admission = admission s, checkoutLocation = checkoutLocation s,
      envvarsList = map translateEnvVar (envvarsList s), git = git s, ideImage = ideImage s,
      initializer = initializer s, portsList = portsList s, timeout = timeout s,
      workspaceImage = workspaceImage s, workspaceLocation = workspaceLocation s\<rparr>"
  by (simp add: translateSpec_def new_StartWorkspaceSpec_def)

lemma translateEnvVar_eq:
  "translateEnvVar e = \<lparr>name = name e, val = val e, mode = OVERWRITE\<rparr>"
  by (simp add: translateEnvVar_def)

subsection \<open>Successful calls\<close>

text \<open>
  A successful call made all seven collaborator calls, none of which threw, each one on
  the results of the ones before it, and answers with the response built from them.
\<close>

lemma getWorkspaceContext_Inr:
  assumes "getWorkspaceContext d call st = (Inr resp, st')"
  shows "\<exists>a rest ut n ctx ws inst evs ospec.
     callMetadata call ''Authorization'' = Some (a # rest) \<and> prefix ''Bearer '' a \<and>
     calls st' = calls st @
       [(FindUserByGitpodToken (sha256_hex d (drop 7 a)) MACHINE_AUTH_TOKEN,
           Inr (RetUserAndToken (Some ut))),
        (NormalizeContextURL (contextUrl call), Inr (RetString n)),
        (Handle (ut_user ut) n, Inr (RetContext ctx)),
        (CreateForContext (ut_user ut) ctx n, Inr (RetWorkspace ws)),
        (NewInstance ws (ut_user ut), Inr (RetInstance inst)),
        (GetEnvVars (user_id (ut_user ut)), Inr (RetEnvVars evs)),
        (CreateSpec (ut_user ut) ws inst evs, Inr (RetSpec ospec))] \<and>
     resp = buildResponse ws inst (translateSpec ospec)"
  using assms
  apply (simp add: getWorkspaceContext_def await_Inr_iff invoke_Inr_iff split: option.splits)
  apply (clarsimp simp: getUser_Some_iff await_Inr_iff invoke_Inr_iff split: option.splits)
  done

lemma response_spec_of_run:
  assumes "getWorkspaceContext d call st = (Inr resp, st')"
    and "snd (last (newCalls st st')) = Inr (RetSpec s)"
  shows "spec resp = Some (translateSpec s)"
proof -
  from getWorkspaceContext_Inr [OF assms(1)] obtain a rest ut n ctx ws inst evs ospec where
    new: "calls st' = calls st @
       [(FindUserByGitpodToken (sha256_hex d (drop 7 a)) MACHINE_AUTH_TOKEN,
           Inr (RetUserAndToken (Some ut))),
        (NormalizeContextURL (contextUrl call), Inr (RetString n)),
        (Handle (ut_user ut) n, Inr (RetContext ctx)),
        (CreateForContext (ut_user ut) ctx n, Inr (RetWorkspace ws)),
        (NewInstance ws (ut_user ut), Inr (RetInstance inst)),
        (GetEnvVars (user_id (ut_user ut)), Inr (RetEnvVars evs)),
        (CreateSpec (ut_user ut) ws inst evs, Inr (RetSpec ospec))]"
    and resp: "resp = buildResponse ws inst (translateSpec ospec)"
    by blast
  from assms(2) have "ospec = s"
    by (simp add: newCalls_append [OF new])
  with resp show ?thesis
    by (simp add: buildResponse_fields)
qed

subsection \<open>The fixture runs\<close>

lemma fixture_state_simps:
  "world fixture_state = 0" "calls fixture_state = []" "console fixture_state = []"
  by (simp_all add: fixture_state_def)

lemma fixture_state_later_simps:
  "world fixture_state_later = 7" "calls fixture_state_later = []"
  by (simp_all add: fixture_state_later_def)

text \<open>The end-to-end scenario of the specification, as the method runs it.\<close>

lemma fixture_run:
  "getWorkspaceContext fixture fixture_call fixture_state =
     (Inr \<lparr>resp_id = ''inst1'',
           metadata = Some \<lparr>metaId = ''ws1'', owner = ''U1''\<rparr>,
           servicePrefix = ''ws1'',
           spec = Some (translateSpec fixture_spec)\<rparr>,
      \<lparr>world = 2,
       calls =
         [(FindUserByGitpodToken ''D(abc)'' MACHINE_AUTH_TOKEN,
           Inr (RetUserAndToken (Some (hd fixture_credentials)))),
          (NormalizeContextURL ''https://example.com/repo'',
           Inr (RetString ''https://example.com/repo'')),
          (Handle \<lparr>user_id = ''U1''\<rparr> ''https://example.com/repo'', Inr (RetContext ''C'')),
          (CreateForContext \<lparr>user_id = ''U1''\<rparr> ''C'' ''https://example.com/repo'',
           Inr (RetWorkspace \<lparr>workspace_id = ''ws1'', ownerId = ''U1''\<rparr>)),
          (NewInstance \<lparr>workspace_id = ''ws1'', ownerId = ''U1''\<rparr> \<lparr>user_id = ''U1''\<rparr>,
           Inr (RetInstance \<lparr>instance_id = ''inst1''\<rparr>)),
          (GetEnvVars ''U1'', Inr (RetEnvVars [''E''])),
          (CreateSpec \<lparr>user_id = ''U1''\<rparr> \<lparr>workspace_id = ''ws1'', ownerId = ''U1''\<rparr>
             \<lparr>instance_id = ''inst1''\<rparr> [''E''],
           Inr (RetSpec fixture_spec))],
       console = [[''Bearer abc'']]\<rparr>)"
  by (simp add: getWorkspaceContext_def getUser_def await_def invoke_def console_log_def Let_def
      buildResponse_def new_GetWorkspaceContextResponse_def new_WorkspaceMetadata_def
      fixture_def fixture_call_def fixture_state_def fixture_credentials_def
      fixture_digest_def credentialStore_def)

lemma fixture_second_run:
  "getWorkspaceContext fixture fixture_call_empty_token fixture_state_later =
     (Inr \<lparr>resp_id = ''inst1'',
           metadata = Some \<lparr>metaId = ''ws1'', owner = ''U0''\<rparr>,
           servicePrefix = ''ws1'',
           spec = Some (translateSpec fixture_spec)\<rparr>,
      \<lparr>world = 9,
       calls =
         [(FindUserByGitpodToken ''D()'' MACHINE_AUTH_TOKEN,
           Inr (RetUserAndToken (Some (fixture_credentials ! 1)))),
          (NormalizeContextURL ''https://example.com/other'',
           Inr (RetString ''https://example.com/other'')),
          (Handle \<lparr>user_id = ''U0''\<rparr> ''https://example.com/other'', Inr (RetContext ''C'')),
          (CreateForContext \<lparr>user_id = ''U0''\<rparr> ''C'' ''https://example.com/other'',
           Inr (RetWorkspace \<lparr>workspace_id = ''ws1'', ownerId = ''U0''\<rparr>)),
          (NewInstance \<lparr>workspace_id = ''ws1'', ownerId = ''U0''\<rparr> \<lparr>user_id = ''U0''\<rparr>,
           Inr (RetInstance \<lparr>instance_id = ''inst1''\<rparr>)),
          (GetEnvVars ''U0'', Inr (RetEnvVars [''E''])),
          (CreateSpec \<lparr>user_id = ''U0''\<rparr> \<lparr>workspace_id = ''ws1'', ownerId = ''U0''\<rparr>
             \<lparr>instance_id = ''inst1''\<rparr> [''E''],
           Inr (RetSpec fixture_spec))],
       console = [[''Bearer abc''], [''Bearer '']]\<rparr>)"
  by (simp add: getWorkspaceContext_def getUser_def await_def invoke_def console_log_def Let_def
      buildResponse_def new_GetWorkspaceContextResponse_def new_WorkspaceMetadata_def
      fixture_def fixture_call_empty_token_def fixture_state_later_def fixture_credentials_def
      fixture_digest_def credentialStore_def)

lemma fixture_unresolvable_run:
  "getWorkspaceContext fixture_unresolvable fixture_call fixture_state =
     (Inl (Thrown ''no such repository''),
      \<lparr>world = 0,
       calls =
         [(FindUserByGitpodToken ''D(abc)'' MACHINE_AUTH_TOKEN,
           Inr (RetUserAndToken (Some (hd fixture_credentials)))),
          (NormalizeContextURL ''https://example.com/repo'',
           Inr (RetString ''https://example.com/repo'')),
          (Handle \<lparr>user_id = ''U1''\<rparr> ''https://example.com/repo'',
           Inl ''no such repository'')],
       console = [[''Bearer abc'']]\<rparr>)"
  by (simp add: getWorkspaceContext_def getUser_def await_def invoke_def console_log_def Let_def
      fixture_unresolvable_def fixture_def fixture_call_def fixture_state_def
      fixture_credentials_def fixture_digest_def credentialStore_def)

section \<open>Credential resolution\<close>

text \<open>
  C1 says that credential resolution never writes the raw bearer token, or the raw
  Authorization value that contains it, to any log output. Line 108 of the source,
  \<^verbatim>\<open>console.log({auth})\<close>, runs before the prefix check and prints the whole list of
  Authorization values. For the header \<^verbatim>\<open>Bearer abc\<close> the console receives the raw value,
  whatever the collaborators and the state are: the code does not keep the claim.
\<close>

theorem getUser_writes_raw_header_to_console:
  "console (snd (getUser d [''Authorization'' \<mapsto> [''Bearer abc'']] st))
     = console st @ [[''Bearer abc'']]"
proof -
  obtain r w where
    "findUserByGitpodToken d (sha256_hex d (drop 7 ''Bearer abc'')) MACHINE_AUTH_TOKEN (world st)
       = (r, w)"
    by (cases "findUserByGitpodToken d (sha256_hex d (drop 7 ''Bearer abc''))
                 MACHINE_AUTH_TOKEN (world st)")
  from getUser_lookup [OF _ _ this, of "[''Authorization'' \<mapsto> [''Bearer abc'']]" "[]"]
  show ?thesis by simp
qed

text \<open>
  C4: a request whose metadata has no Authorization entry, or an empty list of
  Authorization values, or a (first) value that does not start with the case-sensitive
  prefix \<^verbatim>\<open>Bearer \<close>, fails with the unauthenticated status, and no collaborator is called:
  the record of calls and the outside world are as they were before the call.
\<close>

theorem unauthenticated_without_bearer_header:
  assumes "callMetadata call ''Authorization'' = None \<or>
           callMetadata call ''Authorization'' = Some [] \<or>
           (\<exists>a rest. callMetadata call ''Authorization'' = Some (a # rest) \<and>
                      \<not> prefix ''Bearer '' a)"
  shows "fst (getWorkspaceContext d call st) = Inl Unauthenticated \<and>
         calls (snd (getWorkspaceContext d call st)) = calls st \<and>
         world (snd (getWorkspaceContext d call st)) = world st"
  using assms
  by (auto simp: getWorkspaceContext_def await_def getUser_missing getUser_empty
      getUser_malformed)

text \<open>
  C4 on two requests: one without metadata, and one whose header spells the prefix in lower
  case in front of a token the store knows. Both are unauthenticated and reach no
  collaborator.
\<close>

theorem unauthenticated_without_bearer_header_witness:
  "callMetadata (fixture_call\<lparr>callMetadata := Map.empty\<rparr>) ''Authorization'' = None \<and>
   fst (getWorkspaceContext fixture (fixture_call\<lparr>callMetadata := Map.empty\<rparr>) fixture_state)
     = Inl Unauthenticated \<and>
   calls (snd (getWorkspaceContext fixture (fixture_call\<lparr>callMetadata := Map.empty\<rparr>)
     fixture_state)) = [] \<and>
   callMetadata (fixture_call\<lparr>callMetadata := [''Authorization'' \<mapsto> [''bearer abc'']]\<rparr>)
     ''Authorization'' = Some [''bearer abc''] \<and>
   \<not> prefix ''Bearer '' ''bearer abc'' \<and>
   fst (getWorkspaceContext fixture
          (fixture_call\<lparr>callMetadata := [''Authorization'' \<mapsto> [''bearer abc'']]\<rparr>)
          fixture_state) = Inl Unauthenticated \<and>
   calls (snd (getWorkspaceContext fixture
          (fixture_call\<lparr>callMetadata := [''Authorization'' \<mapsto> [''bearer abc'']]\<rparr>)
          fixture_state)) = []"
  using
    unauthenticated_without_bearer_header
      [of "fixture_call\<lparr>callMetadata := Map.empty\<rparr>" fixture fixture_state]
    unauthenticated_without_bearer_header
      [of "fixture_call\<lparr>callMetadata := [''Authorization'' \<mapsto> [''bearer abc'']]\<rparr>"
          fixture fixture_state]
  by (simp add: fixture_state_simps)

text \<open>
  C5: for a well-formed bearer token the resolver makes one lookup, with the hex SHA-256
  digest of the token (the header without its first seven characters) and the credential
  kind \<^verbatim>\<open>MACHINE_AUTH_TOKEN\<close>, and returns the user of the record the lookup found, or
  "unresolved" when it found none. Over a credential table with one credential per digest
  this is the owner of the machine-auth-token credential whose stored digest equals the
  token's digest, and "unresolved" when the table has no such credential.
\<close>

theorem getUser_returns_owner_of_matching_credential:
  assumes "md ''Authorization'' = Some (a # rest)" and "prefix ''Bearer '' a"
  shows "(\<forall>found w.
            findUserByGitpodToken d (sha256_hex d (drop 7 a)) MACHINE_AUTH_TOKEN (world st)
              = (Inr found, w) \<longrightarrow>
            fst (getUser d md st) = Inr (map_option ut_user found) \<and>
            newCalls st (snd (getUser d md st)) =
              [(FindUserByGitpodToken (sha256_hex d (drop 7 a)) MACHINE_AUTH_TOKEN,
                Inr (RetUserAndToken found))]) \<and>
         (\<forall>creds. findUserByGitpodToken d = credentialStore creds \<and>
                  distinct (map (tokenHash \<circ> ut_token) creds) \<longrightarrow>
            (\<forall>c \<in> set creds.
               tokenHash (ut_token c) = sha256_hex d (drop 7 a) \<and>
               tokenType (ut_token c) = MACHINE_AUTH_TOKEN \<longrightarrow>
               fst (getUser d md st) = Inr (Some (ut_user c))) \<and>
            ((\<forall>c \<in> set creds.
                \<not> (tokenHash (ut_token c) = sha256_hex d (drop 7 a) \<and>
                   tokenType (ut_token c) = MACHINE_AUTH_TOKEN)) \<longrightarrow>
               fst (getUser d md st) = Inr None))"
proof (intro conjI allI impI ballI)
  fix found w
  assume "findUserByGitpodToken d (sha256_hex d (drop 7 a)) MACHINE_AUTH_TOKEN (world st)
            = (Inr found, w)"
  from getUser_lookup [where md = md and d = d and st = st, OF assms this]
  show "fst (getUser d md st) = Inr (map_option ut_user found)"
    and "newCalls st (snd (getUser d md st)) =
              [(FindUserByGitpodToken (sha256_hex d (drop 7 a)) MACHINE_AUTH_TOKEN,
                Inr (RetUserAndToken found))]"
    by (simp_all add: newCalls_def)
next
  fix creds c
  let ?P = "\<lambda>c. tokenHash (ut_token c) = sha256_hex d (drop 7 a) \<and>
                 tokenType (ut_token c) = MACHINE_AUTH_TOKEN"
  assume store: "findUserByGitpodToken d = credentialStore creds \<and>
                 distinct (map (tokenHash \<circ> ut_token) creds)"
    and c: "c \<in> set creds" and match: "?P c"
  from c match obtain c' where found: "find ?P creds = Some c'"
    by (cases "find ?P creds") (auto simp: find_None_iff)
  then have "c' \<in> set creds" and "?P c'"
    by (auto simp: find_Some_iff)
  moreover from store have "inj_on (tokenHash \<circ> ut_token) (set creds)"
    by (simp add: distinct_map)
  ultimately have "c' = c"
    using c match by (auto dest!: inj_onD [where x = c' and y = c])
  have "findUserByGitpodToken d (sha256_hex d (drop 7 a)) MACHINE_AUTH_TOKEN (world st)
          = (Inr (Some c), world st)"
    using store found \<open>c' = c\<close> by (simp add: credentialStore_def)
  from getUser_lookup [where md = md and d = d and st = st, OF assms this]
  show "fst (getUser d md st) = Inr (Some (ut_user c))" by simp
next
  fix creds
  let ?P = "\<lambda>c. tokenHash (ut_token c) = sha256_hex d (drop 7 a) \<and>
                 tokenType (ut_token c) = MACHINE_AUTH_TOKEN"
  assume store: "findUserByGitpodToken d = credentialStore creds \<and>
                 distinct (map (tokenHash \<circ> ut_token) creds)"
    and none: "\<forall>c \<in> set creds. \<not> ?P c"
  then have "find ?P creds = None"
    by (simp add: find_None_iff)
  then have "findUserByGitpodToken d (sha256_hex d (drop 7 a)) MACHINE_AUTH_TOKEN (world st)
          = (Inr None, world st)"
    using store by (simp add: credentialStore_def)
  from getUser_lookup [where md = md and d = d and st = st, OF assms this]
  show "fst (getUser d md st) = Inr None" by simp
qed

text \<open>
  C5 on the fixture: the token \<^verbatim>\<open>abc\<close> resolves to its owner \<^verbatim>\<open>U1\<close> through one lookup by
  digest and kind; the token \<^verbatim>\<open>xyz\<close>, whose digest the store holds for a credential of
  another kind, is unresolved.
\<close>

theorem getUser_returns_owner_of_matching_credential_witness:
  "[''Authorization'' \<mapsto> [''Bearer abc'']] ''Authorization'' = Some [''Bearer abc''] \<and>
   prefix ''Bearer '' ''Bearer abc'' \<and>
   findUserByGitpodToken fixture = credentialStore fixture_credentials \<and>
   distinct (map (tokenHash \<circ> ut_token) fixture_credentials) \<and>
   hd fixture_credentials \<in> set fixture_credentials \<and>
   tokenHash (ut_token (hd fixture_credentials)) = sha256_hex fixture (drop 7 ''Bearer abc'') \<and>
   tokenType (ut_token (hd fixture_credentials)) = MACHINE_AUTH_TOKEN \<and>
   findUserByGitpodToken fixture (sha256_hex fixture (drop 7 ''Bearer abc''))
     MACHINE_AUTH_TOKEN (world fixture_state) = (Inr (Some (hd fixture_credentials)), 0) \<and>
   fst (getUser fixture [''Authorization'' \<mapsto> [''Bearer abc'']] fixture_state)
     = Inr (Some \<lparr>user_id = ''U1''\<rparr>) \<and>
   newCalls fixture_state
     (snd (getUser fixture [''Authorization'' \<mapsto> [''Bearer abc'']] fixture_state))
     = [(FindUserByGitpodToken ''D(abc)'' MACHINE_AUTH_TOKEN,
         Inr (RetUserAndToken (Some (hd fixture_credentials))))] \<and>
   fst (getUser fixture [''Authorization'' \<mapsto> [''Bearer xyz'']] fixture_state) = Inr None"
  using
    getUser_returns_owner_of_matching_credential
      [of "[''Authorization'' \<mapsto> [''Bearer abc'']]" "''Bearer abc''" "[]" fixture fixture_state]
    getUser_returns_owner_of_matching_credential
      [of "[''Authorization'' \<mapsto> [''Bearer xyz'']]" "''Bearer xyz''" "[]" fixture fixture_state]
  by (simp add: fixture_def fixture_credentials_def fixture_digest_def credentialStore_def
      newCalls_def fixture_state_simps)

text \<open>
  C6 says that a failure of the credential-store lookup is propagated as "unresolved", so
  that the caller receives the unauthenticated error. With a well-formed bearer token and a
  credential store that is unreachable, the one lookup throws; the method has no
  \<^verbatim>\<open>try\<close>/\<^verbatim>\<open>catch\<close>, so the call is rejected with the error the store threw, not with the
  unauthenticated status.
\<close>

theorem lookup_failure_is_not_unauthenticated:
  "fst (getWorkspaceContext fixture_store_down fixture_call fixture_state)
     = Inl (Thrown ''store unreachable'') \<and>
   fst (getWorkspaceContext fixture_store_down fixture_call fixture_state)
     \<noteq> Inl Unauthenticated"
  by (simp add: getWorkspaceContext_def getUser_def await_def invoke_def console_log_def
      Let_def fixture_store_down_def fixture_def fixture_call_def fixture_state_def
      fixture_digest_def)

text \<open>
  C6, amended: for a well-formed bearer token the credential store is asked once. If the
  lookup finds no credential, resolution is "unresolved" and the caller receives the
  unauthenticated error; if the lookup itself throws, the caller receives the error it
  threw. In both cases the request ends there: the lookup is the only collaborator call of
  the request (no retry, no later step), and the world is as the lookup left it.
\<close>

theorem credential_lookup_is_single_and_terminal:
  assumes "callMetadata call ''Authorization'' = Some (a # rest)" and "prefix ''Bearer '' a"
    and "findUserByGitpodToken d (sha256_hex d (drop 7 a)) MACHINE_AUTH_TOKEN (world st) = (r, w)"
  shows "(r = Inr None \<longrightarrow> fst (getWorkspaceContext d call st) = Inl Unauthenticated) \<and>
         (\<forall>e. r = Inl e \<longrightarrow> fst (getWorkspaceContext d call st) = Inl (Thrown e)) \<and>
         (r = Inr None \<or> isl r \<longrightarrow>
            newCalls st (snd (getWorkspaceContext d call st)) =
              [(FindUserByGitpodToken (sha256_hex d (drop 7 a)) MACHINE_AUTH_TOKEN,
                map_sum id RetUserAndToken r)] \<and>
            world (snd (getWorkspaceContext d call st)) = w)"
  using getUser_lookup [where md = "callMetadata call" and d = d and st = st, OF assms]
  by (auto simp: getWorkspaceContext_def await_def newCalls_def split: sum.splits)

text \<open>
  The amended C6 on both outcomes: the unreachable store (the call fails with the store's
  error after one lookup) and a token the store does not know (the call is unauthenticated
  after one lookup).
\<close>

theorem credential_lookup_is_single_and_terminal_witness:
  "callMetadata fixture_call ''Authorization'' = Some [''Bearer abc''] \<and>
   prefix ''Bearer '' ''Bearer abc'' \<and>
   findUserByGitpodToken fixture_store_down (sha256_hex fixture_store_down (drop 7 ''Bearer abc''))
     MACHINE_AUTH_TOKEN (world fixture_state) = (Inl ''store unreachable'', 0) \<and>
   fst (getWorkspaceContext fixture_store_down fixture_call fixture_state)
     = Inl (Thrown ''store unreachable'') \<and>
   newCalls fixture_state (snd (getWorkspaceContext fixture_store_down fixture_call fixture_state))
     = [(FindUserByGitpodToken ''D(abc)'' MACHINE_AUTH_TOKEN, Inl ''store unreachable'')] \<and>
   findUserByGitpodToken fixture (sha256_hex fixture (drop 7 ''Bearer nobody''))
     MACHINE_AUTH_TOKEN (world fixture_state) = (Inr None, 0) \<and>
   fst (getWorkspaceContext fixture
          (fixture_call\<lparr>callMetadata := [''Authorization'' \<mapsto> [''Bearer nobody'']]\<rparr>)
          fixture_state) = Inl Unauthenticated \<and>
   newCalls fixture_state
     (snd (getWorkspaceContext fixture
          (fixture_call\<lparr>callMetadata := [''Authorization'' \<mapsto> [''Bearer nobody'']]\<rparr>)
          fixture_state))
     = [(FindUserByGitpodToken ''D(nobody)'' MACHINE_AUTH_TOKEN, Inr (RetUserAndToken None))]"
proof -
  have down: "findUserByGitpodToken fixture_store_down
      (sha256_hex fixture_store_down (drop 7 ''Bearer abc''))
      MACHINE_AUTH_TOKEN (world fixture_state) = (Inl ''store unreachable'', 0)"
    by (simp add: fixture_store_down_def fixture_def fixture_state_simps)
  have nobody: "findUserByGitpodToken fixture (sha256_hex fixture (drop 7 ''Bearer nobody''))
      MACHINE_AUTH_TOKEN (world fixture_state) = (Inr None, 0)"
    by (simp add: fixture_def fixture_state_simps credentialStore_def fixture_credentials_def
        fixture_digest_def)
  have md: "callMetadata fixture_call ''Authorization'' = Some [''Bearer abc'']"
    by (simp add: fixture_call_def)
  have md': "callMetadata (fixture_call\<lparr>callMetadata := [''Authorization'' \<mapsto> [''Bearer nobody'']]\<rparr>)
      ''Authorization'' = Some [''Bearer nobody'']"
    by simp
  from credential_lookup_is_single_and_terminal [OF md _ down]
       credential_lookup_is_single_and_terminal [OF md' _ nobody]
  show ?thesis
    using down nobody md
    by (simp add: fixture_store_down_def fixture_def fixture_digest_def)
qed

text \<open>
  C10: of several Authorization values only the first is examined: the result and the
  collaborator calls are those of a request carrying the first value alone. If the first
  value does not start with \<^verbatim>\<open>Bearer \<close> the result is "unresolved" and the store is not
  asked, whatever the later values are. A first value of exactly \<^verbatim>\<open>Bearer \<close> is not
  rejected: the empty token is hashed and looked up like any other token.
\<close>

theorem only_first_authorization_value_is_examined:
  assumes "md ''Authorization'' = Some (a # rest)"
  shows "fst (getUser d md st) = fst (getUser d (md(''Authorization'' \<mapsto> [a])) st) \<and>
         calls (snd (getUser d md st))
           = calls (snd (getUser d (md(''Authorization'' \<mapsto> [a])) st)) \<and>
         (\<not> prefix ''Bearer '' a \<longrightarrow>
            fst (getUser d md st) = Inr None \<and> calls (snd (getUser d md st)) = calls st) \<and>
         (a = ''Bearer '' \<longrightarrow>
            (\<forall>found w.
               findUserByGitpodToken d (sha256_hex d []) MACHINE_AUTH_TOKEN (world st)
                 = (Inr found, w) \<longrightarrow>
               fst (getUser d md st) = Inr (map_option ut_user found) \<and>
               newCalls st (snd (getUser d md st)) =
                 [(FindUserByGitpodToken (sha256_hex d []) MACHINE_AUTH_TOKEN,
                   Inr (RetUserAndToken found))]))"
proof (intro conjI impI allI)
  let ?md1 = "md(''Authorization'' \<mapsto> [a])"
  have md1: "?md1 ''Authorization'' = Some (a # [])"
    by simp
  have "fst (getUser d md st) = fst (getUser d ?md1 st) \<and>
        calls (snd (getUser d md st)) = calls (snd (getUser d ?md1 st))"
  proof (cases "prefix ''Bearer '' a")
    case False
    from getUser_malformed [where md = md and d = d and st = st, OF assms False]
         getUser_malformed [where md = ?md1 and d = d and st = st, OF md1 False]
    show ?thesis by simp
  next
    case True
    obtain r w where
      "findUserByGitpodToken d (sha256_hex d (drop 7 a)) MACHINE_AUTH_TOKEN (world st) = (r, w)"
      by (cases "findUserByGitpodToken d (sha256_hex d (drop 7 a)) MACHINE_AUTH_TOKEN (world st)")
    from getUser_lookup [where md = md and d = d and st = st, OF assms True this]
         getUser_lookup [where md = ?md1 and d = d and st = st, OF md1 True this]
    show ?thesis by simp
  qed
  then show "fst (getUser d md st) = fst (getUser d ?md1 st)"
    and "calls (snd (getUser d md st)) = calls (snd (getUser d ?md1 st))"
    by simp_all
next
  assume "\<not> prefix ''Bearer '' a"
  from getUser_malformed [where md = md and d = d and st = st, OF assms this]
  show "fst (getUser d md st) = Inr None" and "calls (snd (getUser d md st)) = calls st"
    by simp_all
next
  fix found w
  assume a: "a = ''Bearer ''"
    and "findUserByGitpodToken d (sha256_hex d []) MACHINE_AUTH_TOKEN (world st) = (Inr found, w)"
  then have "findUserByGitpodToken d (sha256_hex d (drop 7 a)) MACHINE_AUTH_TOKEN (world st)
               = (Inr found, w)"
    by simp
  from getUser_lookup [where md = md and d = d and st = st, OF assms _ this] a
  show "fst (getUser d md st) = Inr (map_option ut_user found)"
    and "newCalls st (snd (getUser d md st)) =
                 [(FindUserByGitpodToken (sha256_hex d []) MACHINE_AUTH_TOKEN,
                   Inr (RetUserAndToken found))]"
    by (simp_all add: newCalls_def)
qed

text \<open>
  C10 on the fixture: the values \<^verbatim>\<open>Basic xyz\<close>, \<^verbatim>\<open>Bearer abc\<close> are unresolved without a
  lookup, although \<^verbatim>\<open>Bearer abc\<close> alone resolves to \<^verbatim>\<open>U1\<close>; and the value \<^verbatim>\<open>Bearer \<close>
  resolves to \<^verbatim>\<open>U0\<close>, the owner of the credential stored under the digest of the empty
  token.
\<close>

theorem only_first_authorization_value_is_examined_witness:
  "[''Authorization'' \<mapsto> [''Basic xyz'', ''Bearer abc'']] ''Authorization''
     = Some [''Basic xyz'', ''Bearer abc''] \<and>
   \<not> prefix ''Bearer '' ''Basic xyz'' \<and>
   fst (getUser fixture [''Authorization'' \<mapsto> [''Basic xyz'', ''Bearer abc'']] fixture_state)
     = Inr None \<and>
   calls (snd (getUser fixture [''Authorization'' \<mapsto> [''Basic xyz'', ''Bearer abc'']]
     fixture_state)) = [] \<and>
   fst (getUser fixture [''Authorization'' \<mapsto> [''Bearer abc'']] fixture_state)
     = Inr (Some \<lparr>user_id = ''U1''\<rparr>) \<and>
   findUserByGitpodToken fixture (sha256_hex fixture []) MACHINE_AUTH_TOKEN (world fixture_state)
     = (Inr (Some (fixture_credentials ! 1)), 0) \<and>
   fst (getUser fixture [''Authorization'' \<mapsto> [''Bearer '']] fixture_state)
     = Inr (Some \<lparr>user_id = ''U0''\<rparr>) \<and>
   newCalls fixture_state (snd (getUser fixture [''Authorization'' \<mapsto> [''Bearer '']]
     fixture_state))
     = [(FindUserByGitpodToken ''D()'' MACHINE_AUTH_TOKEN,
         Inr (RetUserAndToken (Some (fixture_credentials ! 1))))]"
  using
    only_first_authorization_value_is_examined
      [of "[''Authorization'' \<mapsto> [''Basic xyz'', ''Bearer abc'']]" "''Basic xyz''"
          "[''Bearer abc'']" fixture fixture_state]
    only_first_authorization_value_is_examined
      [of "[''Authorization'' \<mapsto> [''Bearer '']]" "''Bearer ''" "[]" fixture fixture_state]
  by (simp add: getUser_def await_def invoke_def console_log_def Let_def newCalls_def
      fixture_def fixture_credentials_def fixture_digest_def credentialStore_def
      fixture_state_simps)

section \<open>Orchestration\<close>

text \<open>
  C7: the collaborator calls of a request are made in the order of the pipeline
  (credential lookup, context normalization, context resolution, workspace creation,
  instance allocation, environment-variable fetch, spec building), each at most once and
  none skipped. A call that throws is the last call of the request, and the request fails
  with the error it threw; a request that succeeds made all the calls and none threw. In
  particular, when context resolution throws, the request fails, and neither the
  workspace factory nor the instance starter was called. A failed request returns an
  error only, no Workspace Record and no Instance.
\<close>

theorem orchestration_is_ordered_and_aborts_on_failure:
  assumes "getWorkspaceContext d call st = (r, st')"
  shows "\<exists>new. calls st' = calls st @ new \<and>
           prefix (map (stepOf \<circ> fst) new) pipeline \<and>
           (\<forall>ev \<in> set (butlast new). \<not> isl (snd ev)) \<and>
           (\<forall>c e. (c, Inl e) \<in> set new \<longrightarrow> r = Inl (Thrown e)) \<and>
           (\<not> isl r \<longrightarrow>
              map (stepOf \<circ> fst) new = pipeline \<and> (\<forall>ev \<in> set new. \<not> isl (snd ev))) \<and>
           (\<forall>u n e. (Handle u n, Inl e) \<in> set new \<longrightarrow>
              isl r \<and>
              (\<forall>ev \<in> set new. stepOf (fst ev) \<noteq> CreateWorkspace \<and>
                                 stepOf (fst ev) \<noteq> AllocateInstance \<and>
                                 stepOf (fst ev) \<noteq> BuildSpec))"
  using assms
  unfolding getWorkspaceContext_def getUser_def Bearer_length Let_def
  by (auto simp: console_log_def await_def invoke_def pipeline_def
      split: sum.splits option.splits list.splits prod.splits if_splits)

text \<open>
  C7 on the fixture whose context resolver fails: the request fails with the resolver's
  error after the lookup, the normalization and the resolution; nothing else was called.
\<close>

theorem orchestration_is_ordered_and_aborts_on_failure_witness:
  "getWorkspaceContext fixture_unresolvable fixture_call fixture_state
     = (Inl (Thrown ''no such repository''),
        snd (getWorkspaceContext fixture_unresolvable fixture_call fixture_state)) \<and>
   map (stepOf \<circ> fst)
     (calls (snd (getWorkspaceContext fixture_unresolvable fixture_call fixture_state)))
     = [LookupCredential, NormalizeContext, ResolveContext] \<and>
   (Handle \<lparr>user_id = ''U1''\<rparr> ''https://example.com/repo'', Inl ''no such repository'')
     \<in> set (calls (snd (getWorkspaceContext fixture_unresolvable fixture_call fixture_state)))"
  using orchestration_is_ordered_and_aborts_on_failure [OF fixture_unresolvable_run]
  by (simp add: fixture_unresolvable_run)

section \<open>The response\<close>

text \<open>
  C2: a successful call created one Workspace Record and allocated one Instance; the
  response's \<^verbatim>\<open>servicePrefix\<close> and its \<^verbatim>\<open>metadata.metaId\<close> are the id of that Workspace
  Record, and the response's \<^verbatim>\<open>id\<close> is the id of that Instance.
\<close>

theorem response_carries_workspace_and_instance_ids:
  assumes "getWorkspaceContext d call st = (Inr resp, st')"
  shows "\<exists>ws inst.
     List.map_filter createdWorkspace (newCalls st st') = [ws] \<and>
     List.map_filter allocatedInstance (newCalls st st') = [inst] \<and>
     servicePrefix resp = workspace_id ws \<and>
     map_option metaId (metadata resp) = Some (workspace_id ws) \<and>
     resp_id resp = instance_id inst"
proof -
  from getWorkspaceContext_Inr [OF assms] obtain a rest ut n ctx ws inst evs ospec where
    new: "calls st' = calls st @
       [(FindUserByGitpodToken (sha256_hex d (drop 7 a)) MACHINE_AUTH_TOKEN,
           Inr (RetUserAndToken (Some ut))),
        (NormalizeContextURL (contextUrl call), Inr (RetString n)),
        (Handle (ut_user ut) n, Inr (RetContext ctx)),
        (CreateForContext (ut_user ut) ctx n, Inr (RetWorkspace ws)),
        (NewInstance ws (ut_user ut), Inr (RetInstance inst)),
        (GetEnvVars (user_id (ut_user ut)), Inr (RetEnvVars evs)),
        (CreateSpec (ut_user ut) ws inst evs, Inr (RetSpec ospec))]"
    and resp: "resp = buildResponse ws inst (translateSpec ospec)"
    by blast
  have "List.map_filter createdWorkspace (newCalls st st') = [ws]"
    and "List.map_filter allocatedInstance (newCalls st st') = [inst]"
    by (simp_all add: newCalls_append [OF new] List.map_filter_simps)
  then show ?thesis
    by (simp add: resp buildResponse_fields)
qed

text \<open>
  C2 on the end-to-end scenario, where the Workspace Record \<^verbatim>\<open>ws1\<close> and the Instance
  \<^verbatim>\<open>inst1\<close> have different ids.
\<close>

theorem response_carries_workspace_and_instance_ids_witness:
  "\<exists>resp st' ws inst.
     getWorkspaceContext fixture fixture_call fixture_state = (Inr resp, st') \<and>
     List.map_filter createdWorkspace (newCalls fixture_state st') = [ws] \<and>
     List.map_filter allocatedInstance (newCalls fixture_state st') = [inst] \<and>
     workspace_id ws = ''ws1'' \<and> instance_id inst = ''inst1'' \<and>
     servicePrefix resp = ''ws1'' \<and> map_option metaId (metadata resp) = Some ''ws1'' \<and>
     resp_id resp = ''inst1'' \<and> servicePrefix resp \<noteq> instance_id inst"
  using response_carries_workspace_and_instance_ids [OF fixture_run]
  by (simp add: fixture_run newCalls_def fixture_state_simps List.map_filter_simps)

section \<open>The specification translator\<close>

text \<open>
  C3: every environment variable of the wire specification has the application mode
  \<^verbatim>\<open>OVERWRITE\<close>, whatever mode the internal entry had, and the names and the values are
  those of the internal specification, entry by entry.
\<close>

theorem envvars_forced_to_overwrite:
  "map mode (envvarsList (translateSpec s)) = replicate (length (envvarsList s)) OVERWRITE \<and>
   map name (envvarsList (translateSpec s)) = map name (envvarsList s) \<and>
   map val (envvarsList (translateSpec s)) = map val (envvarsList s)"
  by (simp add: translateSpec_eq translateEnvVar_eq comp_def map_replicate_const)

text \<open>
  C8 says that the translator copies the fields without sharing mutable state between the
  wire specification and the internal one. Lines 80, 82 and 83 pass the Git
  specification, the initializer and the list of port specifications from getter to setter:
  the wire specification refers to the very message objects of the internal one. For the
  specification of the end-to-end scenario these are the objects at 10, 11, 12 and 13.
\<close>

theorem wire_spec_shares_message_objects:
  "messageRefs (translateSpec fixture_spec) \<inter> messageRefs fixture_spec = {10, 11, 12, 13}"
  by (auto simp: translateSpec_eq messageRefs_def fixture_spec_def)

text \<open>
  C8, amended: the translator copies admission policy, checkout location, source-control
  info, IDE image, initializer, port list, timeout, workspace image and workspace location
  to the wire specification unchanged; source-control info, initializer and port
  specifications are handed over by reference, so the wire specification refers to the
  same message objects as the internal one. The translator has no failure mode: it is
  defined for every internal specification, and a request whose spec-building step
  returned a specification succeeds with the translation of that specification.
\<close>

theorem translateSpec_copies_fields_and_references:
  "admission (translateSpec s) = admission s \<and>
   checkoutLocation (translateSpec s) = checkoutLocation s \<and>
   git (translateSpec s) = git s \<and>
   ideImage (translateSpec s) = ideImage s \<and>
   initializer (translateSpec s) = initializer s \<and>
   portsList (translateSpec s) = portsList s \<and>
   timeout (translateSpec s) = timeout s \<and>
   workspaceImage (translateSpec s) = workspaceImage s \<and>
   workspaceLocation (translateSpec s) = workspaceLocation s \<and>
   messageRefs (translateSpec s) = messageRefs s \<and>
   (getWorkspaceContext d call st = (r, st') \<and> newCalls st st' \<noteq> [] \<and>
    snd (last (newCalls st st')) = Inr (RetSpec s) \<longrightarrow>
      (\<exists>resp. r = Inr resp \<and> spec resp = Some (translateSpec s)))"
proof -
  have "\<exists>resp. r = Inr resp \<and> spec resp = Some (translateSpec s)"
    if run: "getWorkspaceContext d call st = (r, st')"
      and new: "newCalls st st' \<noteq> []"
      and last: "snd (last (newCalls st st')) = Inr (RetSpec s)"
    using that
    unfolding getWorkspaceContext_def getUser_def Bearer_length Let_def
    by (auto simp: console_log_def await_def invoke_def newCalls_def buildResponse_fields
        split: sum.splits option.splits list.splits prod.splits if_splits)
  then show ?thesis
    by (simp add: translateSpec_eq messageRefs_def)
qed

text \<open>
  The amended C8 on the end-to-end scenario: the spec-building step returned the fixture's
  specification, the request succeeded with its translation, and the translation holds the
  same field values and message objects.
\<close>

theorem translateSpec_copies_fields_and_references_witness:
  "getWorkspaceContext fixture fixture_call fixture_state
     = (fst (getWorkspaceContext fixture fixture_call fixture_state),
        snd (getWorkspaceContext fixture fixture_call fixture_state)) \<and>
   newCalls fixture_state (snd (getWorkspaceContext fixture fixture_call fixture_state)) \<noteq> [] \<and>
   snd (last (newCalls fixture_state
     (snd (getWorkspaceContext fixture fixture_call fixture_state)))) = Inr (RetSpec fixture_spec) \<and>
   (\<exists>resp. fst (getWorkspaceContext fixture fixture_call fixture_state) = Inr resp \<and>
           spec resp = Some (translateSpec fixture_spec)) \<and>
   git (translateSpec fixture_spec) = Some 10 \<and>
   initializer (translateSpec fixture_spec) = Some 11 \<and>
   portsList (translateSpec fixture_spec) = [12, 13] \<and>
   timeout (translateSpec fixture_spec) = ''30m''"
  using translateSpec_copies_fields_and_references
    [of fixture_spec fixture fixture_call fixture_state
        "fst (getWorkspaceContext fixture fixture_call fixture_state)"
        "snd (getWorkspaceContext fixture fixture_call fixture_state)"]
  by (simp add: fixture_run newCalls_def fixture_state_simps) (simp add: fixture_spec_def)

text \<open>
  C9: translation is deterministic. The wire specification depends on the internal
  specification alone: two requests, whatever their collaborators, callers, context URLs
  and states, whose spec-building step returned the same internal specification answer
  with wire specifications that are equal field for field (both are the translation of
  that internal specification).
\<close>

theorem translation_depends_on_internal_spec_only:
  assumes "getWorkspaceContext d1 call1 st1 = (Inr resp1, st1')"
    and "getWorkspaceContext d2 call2 st2 = (Inr resp2, st2')"
    and "snd (last (newCalls st1 st1')) = Inr (RetSpec s)"
    and "snd (last (newCalls st2 st2')) = Inr (RetSpec s)"
  shows "\<exists>w1 w2. spec resp1 = Some w1 \<and> spec resp2 = Some w2 \<and>
           w1 = translateSpec s \<and> w2 = translateSpec s \<and>
           admission w1 = admission w2 \<and>
           checkoutLocation w1 = checkoutLocation w2 \<and>
           envvarsList w1 = envvarsList w2 \<and>
           git w1 = git w2 \<and>
           ideImage w1 = ideImage w2 \<and>
           initializer w1 = initializer w2 \<and>
           portsList w1 = portsList w2 \<and>
           timeout w1 = timeout w2 \<and>
           workspaceImage w1 = workspaceImage w2 \<and>
           workspaceLocation w1 = workspaceLocation w2"
  using response_spec_of_run [OF assms(1) assms(3)] response_spec_of_run [OF assms(2) assms(4)]
  by simp

text \<open>
  C9 on two requests of different callers, for different repositories, in different
  states: the responses differ in their metadata, and carry the same wire specification.
\<close>

theorem translation_depends_on_internal_spec_only_witness:
  "\<exists>resp1 st1' resp2 st2'.
     getWorkspaceContext fixture fixture_call fixture_state = (Inr resp1, st1') \<and>
     getWorkspaceContext fixture fixture_call_empty_token fixture_state_later
       = (Inr resp2, st2') \<and>
     snd (last (newCalls fixture_state st1')) = Inr (RetSpec fixture_spec) \<and>
     snd (last (newCalls fixture_state_later st2')) = Inr (RetSpec fixture_spec) \<and>
     spec resp1 = Some (translateSpec fixture_spec) \<and>
     spec resp2 = Some (translateSpec fixture_spec) \<and>
     metadata resp1 \<noteq> metadata resp2 \<and> world st1' \<noteq> world st2'"
  using translation_depends_on_internal_spec_only [OF fixture_run fixture_second_run]
  by (simp add: fixture_run fixture_second_run newCalls_def fixture_state_simps
      fixture_state_later_simps)

end
